theory Spec2Isabelle
  imports Complex_Main
begin

section \<open>FRCL analyzer: the analysis pipeline of frcl_analyzer.py\<close>

text \<open>
  The script reads a CSV table, joins it with itself on the barcode columns, selects and
  renames five columns, coerces two of them to numbers, filters on DeltaEZ1, aggregates,
  fits a regression and counts tires per DeltaEZ1 range.

  Conventions of the embedding.
  \<^item> A cell of the table read from the CSV is text, or empty: \<open>string option\<close>, with
    \<open>None\<close> for the missing value (NaN) of pandas. The columns are text columns, which
    is what \<open>.str\<close> at line 33 requires of FRCL.
  \<^item> A number is an exact rational, and a numeric cell is \<open>rat option\<close> with \<open>None\<close>
    for NaN. Every comparison with NaN is false, which is how the filter is written below.
    The bounds -3 and 3 and the multiples of one half that bound the ranges are exact in
    binary floating point as well; rounding and infinities are outside the embedding.
  \<^item> An exception is a value \<open>Inl e\<close> of a result type \<open>error + 'a\<close>.
  \<^item> The numeric grammar of \<open>pd.to_numeric\<close> is library code: it is the parameter
    \<open>num\<close> (\<open>None\<close> for a string that is not a number) of the functions that parse.
\<close>

subsection \<open>Data\<close>

record raw_row =
  barcode_ac :: "string option"
  finishing_machine :: "string option"
  production_date :: "string option"
  frcl :: "string option"
  deltaez1 :: "string option"
  barcode_bc :: "string option"

datatype error = ValueError

subsection \<open>Line 21: the self-join\<close>

text \<open>
  \<open>left.merge(right, left_on='Barcode(AC)', right_on='Barcode(BC)')\<close> with the default
  \<open>how='inner'\<close>: for each row of the left table, in order, one output row for each row
  of the right table carrying the same key. Two missing keys are equal keys for pandas,
  as two \<open>None\<close> are here.
\<close>

definition merge_on :: "raw_row list \<Rightarrow> raw_row list \<Rightarrow> (raw_row \<times> raw_row) list" where
  "merge_on left right =
     concat (map (\<lambda>l. map (Pair l) (filter (\<lambda>r. barcode_ac l = barcode_bc r) right)) left)"

definition merged_data :: "raw_row list \<Rightarrow> (raw_row \<times> raw_row) list" where
  "merged_data data = merge_on data data"

subsection \<open>Lines 23 to 31: the selected columns, renamed\<close>

text \<open>
  The two numeric columns change type at lines 33 and 34 (text to number), so the record
  is polymorphic in the type of their cells. FRCL comes from the left row of the pair,
  DeltaEZ1 from the right row.
\<close>

record 'n selected_row =
  Finishing_Machine :: "string option"
  Production_Date :: "string option"
  Barcode :: "string option"
  FRCL :: 'n
  DeltaEZ1 :: 'n

definition select_columns :: "raw_row \<times> raw_row \<Rightarrow> string option selected_row" where
  "select_columns p =
     \<lparr>Finishing_Machine = finishing_machine (fst p),
      Production_Date = production_date (fst p),
      Barcode = barcode_ac (fst p),
      FRCL = frcl (fst p),
      DeltaEZ1 = deltaez1 (snd p)\<rparr>"

subsection \<open>Lines 33 and 34: numeric coercion\<close>

text \<open>\<open>.str.replace(',', '')\<close> deletes every comma of a text cell and leaves a missing cell missing.\<close>

definition str_replace_comma :: "string option \<Rightarrow> string option" where
  "str_replace_comma cell = map_option (filter (\<lambda>c. c \<noteq> CHR '','')) cell"

text \<open>
  \<open>pd.to_numeric(column, errors=...)\<close>: with \<open>errors='raise'\<close> (the default of
  pandas) a string that is not a number raises ValueError, with \<open>errors='coerce'\<close> it
  becomes NaN. The script passes \<open>'coerce'\<close>.
\<close>

datatype errors_mode = Raise | Coerce

definition to_numeric_cell ::
  "(string \<Rightarrow> rat option) \<Rightarrow> errors_mode \<Rightarrow> string option \<Rightarrow> error + rat option" where
  "to_numeric_cell num mode cell =
     (case cell of
        None \<Rightarrow> Inr None
      | Some s \<Rightarrow>
          (case num s of
             Some v \<Rightarrow> Inr (Some v)
           | None \<Rightarrow> (case mode of Raise \<Rightarrow> Inl ValueError | Coerce \<Rightarrow> Inr None)))"

fun to_numeric ::
  "(string \<Rightarrow> rat option) \<Rightarrow> errors_mode \<Rightarrow> string option list \<Rightarrow> error + rat option list" where
  "to_numeric num mode [] = Inr []"
| "to_numeric num mode (c # cs) =
     (case to_numeric_cell num mode c of
        Inl e \<Rightarrow> Inl e
      | Inr v \<Rightarrow>
          (case to_numeric num mode cs of
             Inl e \<Rightarrow> Inl e
           | Inr vs \<Rightarrow> Inr (v # vs)))"

definition set_numeric ::
  "string option selected_row \<Rightarrow> rat option \<times> rat option \<Rightarrow> rat option selected_row" where
  "set_numeric r fd =
     \<lparr>Finishing_Machine = Finishing_Machine r,
      Production_Date = Production_Date r,
      Barcode = Barcode r,
      FRCL = fst fd,
      DeltaEZ1 = snd fd\<rparr>"

definition selected_data ::
  "(string \<Rightarrow> rat option) \<Rightarrow> (raw_row \<times> raw_row) list \<Rightarrow>
     error + rat option selected_row list" where
  "selected_data num merged =
     (let sel = map select_columns merged in
      case to_numeric num Coerce (map (str_replace_comma \<circ> FRCL) sel) of
        Inl e \<Rightarrow> Inl e
      | Inr fs \<Rightarrow>
          (case to_numeric num Coerce (map DeltaEZ1 sel) of
             Inl e \<Rightarrow> Inl e
           | Inr ds \<Rightarrow> Inr (map2 set_numeric sel (zip fs ds))))"

subsection \<open>Line 36: the range filter\<close>

text \<open>A comparison with NaN is false, so a row with a missing DeltaEZ1 fails both tests.\<close>

definition ge_cell :: "rat option \<Rightarrow> rat \<Rightarrow> bool" where
  "ge_cell cell b = (case cell of None \<Rightarrow> False | Some v \<Rightarrow> b \<le> v)"

definition le_cell :: "rat option \<Rightarrow> rat \<Rightarrow> bool" where
  "le_cell cell b = (case cell of None \<Rightarrow> False | Some v \<Rightarrow> v \<le> b)"

definition filtered_data :: "rat option selected_row list \<Rightarrow> rat option selected_row list" where
  "filtered_data sel = filter (\<lambda>r. ge_cell (DeltaEZ1 r) (- 3) \<and> le_cell (DeltaEZ1 r) 3) sel"

subsection \<open>Lines 38 to 44: grouping by DeltaEZ1\<close>

text \<open>
  \<open>groupby('DeltaEZ1')\<close> with its defaults \<open>sort=True\<close> and \<open>dropna=True\<close>: one group
  for each distinct key that is not missing, the groups in ascending order of the key.
  \<open>nunique\<close> counts the distinct values that are not missing, \<open>mean\<close> averages the values
  that are not missing and is NaN when there is none.
\<close>

definition present :: "'a option list \<Rightarrow> 'a list" where
  "present cells = List.map_filter (\<lambda>c. c) cells"

definition nunique :: "'a option list \<Rightarrow> nat" where
  "nunique cells = length (remdups (present cells))"

definition mean :: "rat option list \<Rightarrow> rat option" where
  "mean cells =
     (let vs = present cells in
      if vs = [] then None else Some (sum_list vs / of_nat (length vs)))"

definition group_keys :: "rat option selected_row list \<Rightarrow> rat list" where
  "group_keys rows = sort (remdups (present (map DeltaEZ1 rows)))"

definition group_of :: "rat \<Rightarrow> rat option selected_row list \<Rightarrow> rat option selected_row list" where
  "group_of k rows = filter (\<lambda>r. DeltaEZ1 r = Some k) rows"

record agg_row =
  DeltaEZ1_key :: rat
  Number_of_Tires :: nat
  Average_FRCL :: "rat option"

definition grouped :: "rat option selected_row list \<Rightarrow> agg_row list" where
  "grouped filtered =
     map (\<lambda>k. \<lparr>DeltaEZ1_key = k,
               Number_of_Tires = nunique (map Barcode (group_of k filtered)),
               Average_FRCL = mean (map FRCL (group_of k filtered))\<rparr>)
       (group_keys filtered)"

subsection \<open>Lines 46 to 49: the regression\<close>

text \<open>
  The regression is computed by statsmodels, outside the script; what follows is that
  computation in exact arithmetic.
  \<^item> \<open>sm.add_constant\<close> (with its default \<open>has_constant='skip'\<close>) prepends a column
    of ones, unless the column it is given is already a constant other than zero.
  \<^item> \<open>sm.OLS(y, X)\<close> raises ValueError on a table with no row (it takes the maximum
    of each column of \<open>X\<close>). \<open>fit()\<close> solves the least-squares problem with the
    pseudo-inverse of \<open>X\<close>, which exists for every matrix: a matrix of rank one gets the
    solution of least norm, nothing is raised. A NaN in \<open>y\<close> makes every coefficient NaN.
  \<^item> \<open>predict(X)\<close> multiplies \<open>X\<close> by the coefficients.
  The design matrix is a list of rows, each of one or two entries.
\<close>

definition add_constant :: "rat list \<Rightarrow> rat list list" where
  "add_constant xs =
     (if xs \<noteq> [] \<and> list_all (\<lambda>x. x = hd xs) xs \<and> list_ex (\<lambda>x. x \<noteq> 0) xs
      then map (\<lambda>x. [x]) xs
      else map (\<lambda>x. [1, x]) xs)"

definition dot :: "rat list \<Rightarrow> rat list \<Rightarrow> rat" where
  "dot u v = sum_list (map2 (*) u v)"

definition column :: "nat \<Rightarrow> rat list list \<Rightarrow> rat list" where
  "column j X = map (\<lambda>row. row ! j) X"

definition pinv_solve :: "rat list list \<Rightarrow> rat list \<Rightarrow> rat list" where
  "pinv_solve X y =
     (if length (hd X) = 1
      then (let x = column 0 X in [if dot x x = 0 then 0 else dot x y / dot x x])
      else
        (let u = column 0 X; x = column 1 X;
             n = dot u u; sx = dot u x; sxx = dot x x; sy = dot u y; sxy = dot x y;
             det = n * sxx - sx * sx
         in if det \<noteq> 0
            then [(sxx * sy - sx * sxy) / det, (n * sxy - sx * sy) / det]
            else (let c = sx / n; t = sy / ((1 + c * c) * n) in [t, c * t])))"

definition OLS_fit :: "rat option list \<Rightarrow> rat list list \<Rightarrow> error + rat option list" where
  "OLS_fit y X =
     (if X = [] then Inl ValueError
      else if list_ex (\<lambda>c. c = None) y then Inr (replicate (length (hd X)) None)
      else Inr (map Some (pinv_solve X (present y))))"

definition predict :: "rat option list \<Rightarrow> rat list list \<Rightarrow> rat option list" where
  "predict params X =
     map (\<lambda>row. if list_ex (\<lambda>p. p = None) params then None
                else Some (dot row (present params))) X"

definition OLS_Prediction :: "agg_row list \<Rightarrow> error + rat option list" where
  "OLS_Prediction g =
     (let X = add_constant (map (\<lambda>r. of_nat (Number_of_Tires r)) g);
          y = map Average_FRCL g
      in case OLS_fit y X of
           Inl e \<Rightarrow> Inl e
         | Inr params \<Rightarrow> Inr (predict params X))"

subsection \<open>Lines 51 to 56: the DeltaEZ1 ranges\<close>

text \<open>
  \<open>np.arange(start, stop, step)\<close> has \<open>\<lceil>(stop - start) / step\<rceil>\<close> entries
  \<open>start + i * step\<close>. A label is the text of the two bounds of a range; it is kept here
  as the pair of the bounds.
\<close>

definition arange :: "rat \<Rightarrow> rat \<Rightarrow> rat \<Rightarrow> rat list" where
  "arange start stop step =
     map (\<lambda>i. start + of_nat i * step) [0..<nat \<lceil>(stop - start) / step\<rceil>]"

definition deltaez1_bins :: "rat list" where
  "deltaez1_bins = arange (- 3) (31 / 10) (1 / 2)"

definition bin_labels :: "(rat \<times> rat) list" where
  "bin_labels =
     map (\<lambda>i. (deltaez1_bins ! i, deltaez1_bins ! (i + 1))) [0..<length deltaez1_bins - 1]"

text \<open>
  \<open>pd.cut(x, bins, labels, right=False)\<close>: the position of \<open>x\<close> among the (ascending)
  bins is the number of bins that are \<open>\<le> x\<close> (\<open>searchsorted\<close> with \<open>side='right'\<close>);
  position 0 (below the first bin), position \<open>len(bins)\<close> (at or above the last bin) and
  a missing \<open>x\<close> give the missing category, any other position \<open>i\<close> gives the label
  \<open>i - 1\<close>. The category is kept as the index of its label.
\<close>

definition searchsorted_right :: "rat list \<Rightarrow> rat \<Rightarrow> nat" where
  "searchsorted_right bins v = length (takeWhile (\<lambda>b. b \<le> v) bins)"

definition cut :: "rat list \<Rightarrow> rat option \<Rightarrow> nat option" where
  "cut bins cell =
     (case cell of
        None \<Rightarrow> None
      | Some v \<Rightarrow>
          (let i = searchsorted_right bins v
           in if i = 0 \<or> i = length bins then None else Some (i - 1)))"

text \<open>
  \<open>groupby('DeltaEZ1_Range')\<close> on the categorical column (pandas 2, \<open>observed=False\<close>):
  one group for each category, in the order of the labels, whether or not a row carries
  it; rows of the missing category are in no group.
\<close>

definition range_group :: "nat \<Rightarrow> rat option selected_row list \<Rightarrow> rat option selected_row list" where
  "range_group i filtered = filter (\<lambda>r. cut deltaez1_bins (DeltaEZ1 r) = Some i) filtered"

definition range_count_df :: "rat option selected_row list \<Rightarrow> ((rat \<times> rat) \<times> nat) list" where
  "range_count_df filtered =
     map (\<lambda>i. (bin_labels ! i, nunique (map Barcode (range_group i filtered))))
       [0..<length bin_labels]"

subsection \<open>Lines 18 to 103: the run\<close>

text \<open>
  The tables the run computes, or the error the \<open>except\<close> clause reports. The workbook
  and the three figures are written from these tables and are not part of the embedding.
\<close>

record analysis =
  selected :: "rat option selected_row list"
  aggregate :: "(agg_row \<times> rat option) list"
  range_count :: "((rat \<times> rat) \<times> nat) list"

definition analyze :: "(string \<Rightarrow> rat option) \<Rightarrow> raw_row list \<Rightarrow> error + analysis" where
  "analyze num data =
     (case selected_data num (merged_data data) of
        Inl e \<Rightarrow> Inl e
      | Inr sel \<Rightarrow>
          (let filtered = filtered_data sel; g = grouped filtered
           in case OLS_Prediction g of
                Inl e \<Rightarrow> Inl e
              | Inr preds \<Rightarrow>
                  Inr \<lparr>selected = sel, aggregate = zip g preds,
                       range_count = range_count_df filtered\<rparr>))"

subsection \<open>A decimal reader\<close>

text \<open>
  To run the embedding on a concrete table the parameter \<open>num\<close> needs a value. This one
  reads an optional sign, digits, and an optional point followed by digits; pandas reads
  these strings to the same numbers (and reads more: exponents, blanks around the number).
\<close>

definition digit :: "char \<Rightarrow> nat option" where
  "digit c =
     map_of [(CHR ''0'', 0), (CHR ''1'', 1), (CHR ''2'', 2), (CHR ''3'', 3), (CHR ''4'', 4),
             (CHR ''5'', 5), (CHR ''6'', 6), (CHR ''7'', 7), (CHR ''8'', 8), (CHR ''9'', 9)] c"

fun digits :: "nat \<Rightarrow> string \<Rightarrow> nat option" where
  "digits a [] = Some a"
| "digits a (c # cs) = (case digit c of None \<Rightarrow> None | Some d \<Rightarrow> digits (10 * a + d) cs)"

definition unsigned_decimal :: "string \<Rightarrow> rat option" where
  "unsigned_decimal s =
     (let ip = takeWhile (\<lambda>c. c \<noteq> CHR ''.'') s;
          fp = tl (dropWhile (\<lambda>c. c \<noteq> CHR ''.'') s)
      in if ip = [] \<and> fp = [] then None
         else (case digits 0 ip of
                 None \<Rightarrow> None
               | Some a \<Rightarrow>
                   (case digits 0 fp of
                      None \<Rightarrow> None
                    | Some b \<Rightarrow> Some (of_nat a + of_nat b / 10 ^ length fp))))"

definition decimal :: "string \<Rightarrow> rat option" where
  "decimal s =
     (case s of
        [] \<Rightarrow> None
      | c # cs \<Rightarrow>
          if c = CHR ''-'' then map_option uminus (unsigned_decimal cs)
          else if c = CHR ''+'' then unsigned_decimal cs
          else unsigned_decimal s)"

subsection \<open>Lines 23 to 34, row by row\<close>

text \<open>
  What lines 23 to 34 make of one row of the joined table when nothing raises; the lemma
  \<open>selected_data_eq\<close> below shows that \<open>selected_data\<close> is this function mapped over
  the joined table.
\<close>

definition coerced :: "(string \<Rightarrow> rat option) \<Rightarrow> raw_row \<times> raw_row \<Rightarrow> rat option selected_row" where
  "coerced num p =
     \<lparr>Finishing_Machine = finishing_machine (fst p),
      Production_Date = production_date (fst p),
      Barcode = barcode_ac (fst p),
      FRCL = Option.bind (str_replace_comma (frcl (fst p))) num,
      DeltaEZ1 = Option.bind (deltaez1 (snd p)) num\<rparr>"

subsection \<open>A sample table\<close>

definition sample_row :: "string \<Rightarrow> string \<Rightarrow> string \<Rightarrow> string \<Rightarrow> raw_row" where
  "sample_row ac f d bc =
     \<lparr>barcode_ac = Some ac, finishing_machine = Some ''M1'',
      production_date = Some ''2024-01-01'', frcl = Some f, deltaez1 = Some d,
      barcode_bc = Some bc\<rparr>"

definition sample_data :: "raw_row list" where
  "sample_data =
     [sample_row ''A'' ''1,234.5'' ''1.0'' ''B'',
      sample_row ''B'' ''10'' ''3'' ''A'',
      sample_row ''C'' ''x'' ''0.5'' ''C'',
      sample_row ''Z'' ''7'' ''9.5'' ''Y'']"

definition sample_selected :: "rat option selected_row list" where
  "sample_selected = map (coerced decimal) (merged_data sample_data)"

text \<open>The tables of the run on the sample table, as \<open>sample_run\<close> below confirms.\<close>

definition sample_analysis :: analysis where
  "sample_analysis =
     \<lparr>selected =
        [\<lparr>Finishing_Machine = Some ''M1'', Production_Date = Some ''2024-01-01'',
          Barcode = Some ''A'', FRCL = Some (2469 / 2), DeltaEZ1 = Some 3\<rparr>,
         \<lparr>Finishing_Machine = Some ''M1'', Production_Date = Some ''2024-01-01'',
          Barcode = Some ''B'', FRCL = Some 10, DeltaEZ1 = Some 1\<rparr>,
         \<lparr>Finishing_Machine = Some ''M1'', Production_Date = Some ''2024-01-01'',
          Barcode = Some ''C'', FRCL = None, DeltaEZ1 = Some (1 / 2)\<rparr>],
      aggregate =
        [(\<lparr>DeltaEZ1_key = 1 / 2, Number_of_Tires = 1, Average_FRCL = None\<rparr>, None),
         (\<lparr>DeltaEZ1_key = 1, Number_of_Tires = 1, Average_FRCL = Some 10\<rparr>, None),
         (\<lparr>DeltaEZ1_key = 3, Number_of_Tires = 1, Average_FRCL = Some (2469 / 2)\<rparr>, None)],
      range_count =
        [((- 3, - (5 / 2)), 0), ((- (5 / 2), - 2), 0), ((- 2, - (3 / 2)), 0),
         ((- (3 / 2), - 1), 0), ((- 1, - (1 / 2)), 0), ((- (1 / 2), 0), 0),
         ((0, 1 / 2), 0), ((1 / 2, 1), 1), ((1, 3 / 2), 1), ((3 / 2, 2), 0),
         ((2, 5 / 2), 0), ((5 / 2, 3), 0)]\<rparr>"

subsection \<open>The records below 3\<close>


subsection \<open>A table with a repeated barcode\<close>



subsection \<open>A table with a single DeltaEZ1 value\<close>



section \<open>Properties\<close>

subsection \<open>The steps, one by one\<close>

lemma to_numeric_coerce:
  "to_numeric num Coerce cells = Inr (map (\<lambda>c. Option.bind c num) cells)"
  by (induction cells) (auto simp: to_numeric_cell_def split: option.splits)

lemma map2_map_zip: "map2 f (map g xs) (zip (map h xs) (map k xs)) = map (\<lambda>x. f (g x) (h x, k x)) xs"
  by (induction xs) auto

lemma selected_data_eq:
  "selected_data num merged = Inr (map (coerced num) merged)"
  unfolding selected_data_def Let_def to_numeric_coerce
  by (simp add: map2_map_zip comp_def coerced_def set_numeric_def select_columns_def)


lemma sorted_group_keys: "sorted_wrt (<) (group_keys rows)"
  by (simp add: group_keys_def strict_sorted_iff)

lemma present_simps:
  "present [] = []"
  "present (None # cells) = present cells"
  "present (Some v # cells) = v # present cells"
  by (simp_all add: present_def List.map_filter_simps)

lemma set_present: "set (present cells) = {v. Some v \<in> set cells}"
proof (induction cells)
  case Nil
  show ?case by (simp add: present_simps)
next
  case (Cons c cells)
  then show ?case by (cases c) (auto simp: present_simps)
qed

lemma set_group_keys: "set (group_keys rows) = {d. \<exists>r\<in>set rows. DeltaEZ1 r = Some d}"
  by (force simp: group_keys_def set_present)

lemma keys_grouped: "map DeltaEZ1_key (grouped f) = group_keys f"
  by (simp add: grouped_def comp_def)

lemma in_filtered_data:
  "r \<in> set (filtered_data sel) \<longleftrightarrow> r \<in> set sel \<and> (\<exists>d. DeltaEZ1 r = Some d \<and> - 3 \<le> d \<and> d \<le> 3)"
  by (auto simp: filtered_data_def ge_cell_def le_cell_def split: option.splits)

lemma length_predict: "OLS_Prediction g = Inr preds \<Longrightarrow> length preds = length g"
  by (auto simp: OLS_Prediction_def Let_def predict_def add_constant_def split: sum.splits if_splits)

lemma analyze_Inr:
  assumes "analyze num data = Inr a"
  obtains preds where
    "selected a = map (coerced num) (merged_data data)"
    "OLS_Prediction (grouped (filtered_data (selected a))) = Inr preds"
    "aggregate a = zip (grouped (filtered_data (selected a))) preds"
    "length preds = length (grouped (filtered_data (selected a)))"
    "range_count a = range_count_df (filtered_data (selected a))"
  using assms
  by (auto simp: analyze_def selected_data_eq Let_def length_predict split: sum.splits)

lemma key_set_grouped:
  "DeltaEZ1_key ` set (grouped (filtered_data sel)) =
     {d. - 3 \<le> d \<and> d \<le> 3 \<and> (\<exists>r\<in>set sel. DeltaEZ1 r = Some d)}"
proof -
  have "DeltaEZ1_key ` set (grouped (filtered_data sel)) = set (group_keys (filtered_data sel))"
    using keys_grouped [of "filtered_data sel"] by (metis set_map)
  also have "\<dots> = {d. - 3 \<le> d \<and> d \<le> 3 \<and> (\<exists>r\<in>set sel. DeltaEZ1 r = Some d)}"
    by (auto simp: set_group_keys in_filtered_data)
  finally show ?thesis .
qed

lemma deltaez1_bins_eq:
  "deltaez1_bins =
     [- 3, - (5 / 2), - 2, - (3 / 2), - 1, - (1 / 2), 0, 1 / 2, 1, 3 / 2, 2, 5 / 2, 3]"
  by code_simp

lemma sample_merged:
  "merged_data sample_data =
     [(sample_data ! 0, sample_data ! 1), (sample_data ! 1, sample_data ! 0),
      (sample_data ! 2, sample_data ! 2)]"
  by code_simp

lemma sample_selected_eq: "sample_selected = selected sample_analysis"
  unfolding sample_selected_def sample_merged
  by (simp add: sample_analysis_def sample_data_def sample_row_def coerced_def
      str_replace_comma_def decimal_def unsigned_decimal_def digit_def)

lemma sample_tables:
  "grouped (filtered_data (selected sample_analysis)) = map fst (aggregate sample_analysis)
   \<and> OLS_Prediction (map fst (aggregate sample_analysis)) =
       Inr (map snd (aggregate sample_analysis))
   \<and> range_count_df (filtered_data (selected sample_analysis)) = range_count sample_analysis"
  by code_simp

lemma sample_run: "analyze decimal sample_data = Inr sample_analysis"
proof -
  have "selected_data decimal (merged_data sample_data) = Inr (selected sample_analysis)"
    using sample_selected_eq by (simp add: selected_data_eq sample_selected_def)
  then show ?thesis
    using sample_tables by (simp add: analyze_def Let_def sample_analysis_def)
qed

lemma sorted_le_last: "sorted xs \<Longrightarrow> x \<in> set xs \<Longrightarrow> x \<le> last xs"
  by (induction xs) auto

lemma searchsorted_right_le: "searchsorted_right bins v \<le> length bins"
  by (simp add: searchsorted_right_def length_takeWhile_le)

lemma searchsorted_right_iff:
  assumes "sorted bins" and "k + 1 < length bins"
  shows "searchsorted_right bins v = k + 1 \<longleftrightarrow> bins ! k \<le> v \<and> v < bins ! (k + 1)"
proof
  assume eq: "searchsorted_right bins v = k + 1"
  have "k < length (takeWhile (\<lambda>b. b \<le> v) bins)"
    using eq by (simp add: searchsorted_right_def)
  then have "takeWhile (\<lambda>b. b \<le> v) bins ! k \<in> set (takeWhile (\<lambda>b. b \<le> v) bins)"
    "takeWhile (\<lambda>b. b \<le> v) bins ! k = bins ! k"
    by (rule nth_mem, rule takeWhile_nth)
  then have "bins ! k \<in> set (takeWhile (\<lambda>b. b \<le> v) bins)"
    by simp
  then have lo: "bins ! k \<le> v"
    by (rule set_takeWhileD [THEN conjunct2])
  have "length (takeWhile (\<lambda>b. b \<le> v) bins) < length bins"
    using eq assms(2) by (simp add: searchsorted_right_def)
  then have "\<not> bins ! length (takeWhile (\<lambda>b. b \<le> v) bins) \<le> v"
    by (rule nth_length_takeWhile)
  then have "v < bins ! (k + 1)"
    using eq by (simp add: searchsorted_right_def)
  with lo show "bins ! k \<le> v \<and> v < bins ! (k + 1)" ..
next
  assume b: "bins ! k \<le> v \<and> v < bins ! (k + 1)"
  have "takeWhile (\<lambda>b. b \<le> v) bins = take (k + 1) bins"
  proof (rule takeWhile_eq_take_P_nth)
    fix i assume "i < k + 1" "i < length bins"
    then have "bins ! i \<le> bins ! k"
      using assms by (intro sorted_nth_mono) simp_all
    with b show "bins ! i \<le> v" by simp
  next
    show "\<not> bins ! (k + 1) \<le> v" using b by simp
  qed
  then show "searchsorted_right bins v = k + 1"
    using assms(2) by (simp add: searchsorted_right_def)
qed

lemma cut_iff:
  assumes "sorted bins"
  shows "cut bins (Some v) = Some k \<longleftrightarrow>
           k + 1 < length bins \<and> bins ! k \<le> v \<and> v < bins ! (k + 1)"
proof
  assume c: "cut bins (Some v) = Some k"
  then have "searchsorted_right bins v = k + 1" "searchsorted_right bins v \<noteq> length bins"
    by (auto simp: cut_def Let_def split: if_splits)
  moreover from this have "k + 1 < length bins"
    using searchsorted_right_le [of bins v] by simp
  ultimately show "k + 1 < length bins \<and> bins ! k \<le> v \<and> v < bins ! (k + 1)"
    using searchsorted_right_iff [OF assms, of k v] by simp
next
  assume "k + 1 < length bins \<and> bins ! k \<le> v \<and> v < bins ! (k + 1)"
  then have "searchsorted_right bins v = k + 1" "k + 1 < length bins"
    using searchsorted_right_iff [OF assms, of k v] by simp_all
  then show "cut bins (Some v) = Some k"
    by (simp add: cut_def)
qed

lemma cut_None_iff:
  assumes "sorted bins" and "bins \<noteq> []"
  shows "cut bins (Some v) = None \<longleftrightarrow> v < hd bins \<or> last bins \<le> v"
proof -
  let ?P = "\<lambda>b. b \<le> v"
  have zero: "searchsorted_right bins v = 0 \<longleftrightarrow> v < hd bins"
    using assms(2) by (cases bins) (auto simp: searchsorted_right_def)
  have full: "searchsorted_right bins v = length bins \<longleftrightarrow> last bins \<le> v"
  proof
    assume "searchsorted_right bins v = length bins"
    then have "length (takeWhile ?P bins) = length bins"
      by (simp add: searchsorted_right_def)
    then have "takeWhile ?P bins = bins"
      using takeWhile_eq_take [of ?P bins] by simp
    then have "\<forall>b\<in>set bins. b \<le> v"
      by (simp only: takeWhile_eq_all_conv)
    then show "last bins \<le> v" using assms(2) by simp
  next
    assume l: "last bins \<le> v"
    have "b \<le> v" if "b \<in> set bins" for b
      using sorted_le_last [OF assms(1) that] l by simp
    then have "takeWhile ?P bins = bins"
      by (simp only: takeWhile_eq_all_conv) simp
    then show "searchsorted_right bins v = length bins"
      by (simp only: searchsorted_right_def)
  qed
  show ?thesis
    using zero full by (auto simp: cut_def Let_def)
qed

lemma sorted_deltaez1_bins: "sorted deltaez1_bins"
  by (simp add: deltaez1_bins_eq)

lemma length_deltaez1_bins: "length deltaez1_bins = 13"
  by (simp add: deltaez1_bins_eq)

lemma deltaez1_bins_steps: "deltaez1_bins = map (\<lambda>i. - 3 + of_nat i / 2) [0..<13]"
  unfolding deltaez1_bins_eq by code_simp

lemma nth_deltaez1_bins: "i < 13 \<Longrightarrow> deltaez1_bins ! i = - 3 + of_nat i / 2"
  by (simp add: deltaez1_bins_steps)

lemma length_bin_labels: "length bin_labels = 12"
  by (simp add: bin_labels_def length_deltaez1_bins)

lemma nth_bin_labels:
  "i < 12 \<Longrightarrow> bin_labels ! i = (- 3 + of_nat i / 2, - 3 + of_nat (i + 1) / 2)"
  by (simp add: bin_labels_def length_deltaez1_bins nth_deltaez1_bins del: of_nat_Suc of_nat_add)

lemma cut_deltaez1_iff:
  "cut deltaez1_bins (Some v) = Some k \<longleftrightarrow>
     k < 12 \<and> - 3 + of_nat k / 2 \<le> v \<and> v < - 3 + of_nat (k + 1) / 2"
proof -
  have "cut deltaez1_bins (Some v) = Some k \<longleftrightarrow>
          k + 1 < 13 \<and> deltaez1_bins ! k \<le> v \<and> v < deltaez1_bins ! (k + 1)"
    using cut_iff [OF sorted_deltaez1_bins, of v k] by (simp only: length_deltaez1_bins)
  also have "\<dots> \<longleftrightarrow> k < 12 \<and> - 3 + of_nat k / 2 \<le> v \<and> v < - 3 + of_nat (k + 1) / 2"
    by (auto simp: nth_deltaez1_bins simp del: of_nat_Suc of_nat_add)
  finally show ?thesis .
qed

lemma cut_deltaez1_None_iff:
  "cut deltaez1_bins (Some v) = None \<longleftrightarrow> v < - 3 \<or> 3 \<le> v"
  using cut_None_iff [OF sorted_deltaez1_bins, of v] by (simp add: deltaez1_bins_eq)


lemma in_range_group:
  "r \<in> set (range_group k filtered) \<longleftrightarrow> r \<in> set filtered \<and> cut deltaez1_bins (DeltaEZ1 r) = Some k"
  by (simp add: range_group_def)























subsection \<open>The join\<close>











subsection \<open>The aggregate table\<close>

text \<open>
  C3. Every row of the aggregate table has a DeltaEZ1 value that parsed successfully and
  lies in the closed interval from -3 to 3: the keys of the table grouped from the
  filtered records are exactly the numbers between -3 and 3 that are the DeltaEZ1 of
  some selected record, and so it is for the aggregate table of every run that returns.
  A missing DeltaEZ1 is \<open>None\<close>, which is never a key.
\<close>

theorem aggregate_rows_in_range:
  "DeltaEZ1_key ` set (grouped (filtered_data sel)) =
     {d. - 3 \<le> d \<and> d \<le> 3 \<and> (\<exists>r\<in>set sel. DeltaEZ1 r = Some d)}
   \<and> (analyze num data = Inr a \<longrightarrow>
        (\<forall>g\<in>set (aggregate a).
           - 3 \<le> DeltaEZ1_key (fst g) \<and> DeltaEZ1_key (fst g) \<le> 3 \<and>
           (\<exists>r\<in>set (selected a). DeltaEZ1 r = Some (DeltaEZ1_key (fst g)))))"
proof (intro conjI impI ballI)
  show "DeltaEZ1_key ` set (grouped (filtered_data sel)) =
     {d. - 3 \<le> d \<and> d \<le> 3 \<and> (\<exists>r\<in>set sel. DeltaEZ1 r = Some d)}"
    by (rule key_set_grouped)
next
  fix g assume a: "analyze num data = Inr a" and g: "g \<in> set (aggregate a)"
  from a obtain preds where
    agg: "aggregate a = zip (grouped (filtered_data (selected a))) preds"
    by (rule analyze_Inr)
  from g agg have "fst g \<in> set (grouped (filtered_data (selected a)))"
    by (metis in_set_zipE prod.collapse)
  then have "DeltaEZ1_key (fst g) \<in> DeltaEZ1_key ` set (grouped (filtered_data (selected a)))"
    by (rule imageI)
  then have k: "DeltaEZ1_key (fst g) \<in>
      {d. - 3 \<le> d \<and> d \<le> 3 \<and> (\<exists>r\<in>set (selected a). DeltaEZ1 r = Some d)}"
    by (simp only: key_set_grouped)
  from k show "- 3 \<le> DeltaEZ1_key (fst g)" by simp
  from k show "DeltaEZ1_key (fst g) \<le> 3" by simp
  from k show "\<exists>r\<in>set (selected a). DeltaEZ1 r = Some (DeltaEZ1_key (fst g))" by simp
qed

theorem aggregate_rows_in_range_witness:
  "analyze decimal sample_data = Inr sample_analysis
   \<and> - 3 \<le> DeltaEZ1_key (fst (aggregate sample_analysis ! 2))
   \<and> DeltaEZ1_key (fst (aggregate sample_analysis ! 2)) \<le> 3"
proof -
  have mem: "aggregate sample_analysis ! 2 \<in> set (aggregate sample_analysis)"
    by (simp add: sample_analysis_def)
  from aggregate_rows_in_range [of sample_selected decimal sample_data sample_analysis]
  have "\<forall>g\<in>set (aggregate sample_analysis).
          - 3 \<le> DeltaEZ1_key (fst g) \<and> DeltaEZ1_key (fst g) \<le> 3 \<and>
          (\<exists>r\<in>set (selected sample_analysis). DeltaEZ1 r = Some (DeltaEZ1_key (fst g)))"
    using sample_run by blast
  with mem sample_run show ?thesis by blast
qed

text \<open>
  C9. The rows of the aggregate table are in ascending order of DeltaEZ1 (strictly: no
  key occurs twice), for the table grouped from any filtered records and for the
  aggregate table of every run that returns.
\<close>

theorem aggregate_rows_ascending:
  "sorted_wrt (<) (map DeltaEZ1_key (grouped filtered))
   \<and> (analyze num data = Inr a \<longrightarrow> sorted_wrt (<) (map (\<lambda>g. DeltaEZ1_key (fst g)) (aggregate a)))"
proof (intro conjI impI)
  show "sorted_wrt (<) (map DeltaEZ1_key (grouped filtered))"
    by (simp only: keys_grouped sorted_group_keys)
next
  assume a: "analyze num data = Inr a"
  from a obtain preds where
    agg: "aggregate a = zip (grouped (filtered_data (selected a))) preds" and
    len: "length preds = length (grouped (filtered_data (selected a)))"
    by (rule analyze_Inr)
  have "map (\<lambda>g. DeltaEZ1_key (fst g)) (aggregate a) = map DeltaEZ1_key (map fst (aggregate a))"
    by (simp add: comp_def)
  also have "map fst (aggregate a) = grouped (filtered_data (selected a))"
    using agg len by simp
  finally show "sorted_wrt (<) (map (\<lambda>g. DeltaEZ1_key (fst g)) (aggregate a))"
    by (simp only: keys_grouped sorted_group_keys)
qed

theorem aggregate_rows_ascending_witness:
  "analyze decimal sample_data = Inr sample_analysis
   \<and> sorted_wrt (<) (map (\<lambda>g. DeltaEZ1_key (fst g)) (aggregate sample_analysis))"
  using aggregate_rows_ascending [of sample_selected decimal sample_data sample_analysis]
    sample_run
  by blast

subsection \<open>Numeric coercion\<close>

text \<open>
  C7. Parsing an FRCL string that contains commas gives the same value as parsing the
  string with the commas removed, read either way: the FRCL path applied to the string
  equals the plain numeric reading of the string without commas, and equals the FRCL
  path applied to the string without commas; so the FRCL cell of a selected row does not
  change when the commas are deleted from the raw cell. With the decimal reader,
  "1,234.5" gives 1234.5, as "1234.5" does.
\<close>

theorem frcl_thousands_separators:
  "to_numeric_cell num Coerce (str_replace_comma (Some s)) =
     to_numeric_cell num Coerce (Some (filter (\<lambda>c. c \<noteq> CHR '','') s))
   \<and> to_numeric_cell num Coerce (str_replace_comma (Some s)) =
     to_numeric_cell num Coerce (str_replace_comma (Some (filter (\<lambda>c. c \<noteq> CHR '','') s)))
   \<and> FRCL (coerced num (l, r)) =
     FRCL (coerced num (l\<lparr>frcl := map_option (filter (\<lambda>c. c \<noteq> CHR '','')) (frcl l)\<rparr>, r))
   \<and> to_numeric_cell decimal Coerce (str_replace_comma (Some ''1,234.5'')) = Inr (Some (2469 / 2))
   \<and> to_numeric_cell decimal Coerce (Some ''1234.5'') = Inr (Some (2469 / 2))"
proof (intro conjI)
  show "to_numeric_cell decimal Coerce (str_replace_comma (Some ''1,234.5'')) =
          Inr (Some (2469 / 2))"
    by (simp add: to_numeric_cell_def str_replace_comma_def decimal_def unsigned_decimal_def
        digit_def)
  show "to_numeric_cell decimal Coerce (Some ''1234.5'') = Inr (Some (2469 / 2))"
    by (simp add: to_numeric_cell_def decimal_def unsigned_decimal_def digit_def)
  show "FRCL (coerced num (l, r)) =
     FRCL (coerced num (l\<lparr>frcl := map_option (filter (\<lambda>c. c \<noteq> CHR '','')) (frcl l)\<rparr>, r))"
    by (cases "frcl l") (simp_all add: coerced_def str_replace_comma_def)
qed (simp_all add: str_replace_comma_def)

lemma to_numeric_raise:
  "num s = None \<Longrightarrow> to_numeric num Raise (cells @ Some s # cells') = Inl ValueError"
  by (induction cells) (auto simp: to_numeric_cell_def split: option.splits sum.splits error.splits)







subsection \<open>The DeltaEZ1 ranges\<close>

text \<open>
  C4. The binning uses 13 boundaries, from -3 to 3 in steps of one half, hence 12
  ranges, labelled by their bounds. A range is closed on the left and open on the right:
  a value is cut into range \<open>k\<close> exactly when it is at least the lower bound of \<open>k\<close>
  and below its upper bound. Every value from -3 up to, but excluding, 3 lies in exactly
  one range, and every filtered record with such a value is in the group of exactly one
  range. The value 3 is cut into no range: a record with DeltaEZ1 equal to 3 is in the
  group of no range, and the range counts are the same with and without it.
\<close>

theorem binning_half_open:
  "length deltaez1_bins = 13
   \<and> deltaez1_bins = map (\<lambda>i. - 3 + of_nat i / 2) [0..<13]
   \<and> length bin_labels = 12
   \<and> (i < 12 \<longrightarrow> bin_labels ! i = (- 3 + of_nat i / 2, - 3 + of_nat (i + 1) / 2))
   \<and> (cut deltaez1_bins (Some v) = Some k \<longleftrightarrow>
        k < 12 \<and> - 3 + of_nat k / 2 \<le> v \<and> v < - 3 + of_nat (k + 1) / 2)
   \<and> (- 3 \<le> v \<and> v < 3 \<longrightarrow>
        (\<exists>!k. k < 12 \<and> - 3 + of_nat k / 2 \<le> v \<and> v < - 3 + of_nat (k + 1) / 2))
   \<and> (r \<in> set filtered \<and> DeltaEZ1 r = Some v \<and> - 3 \<le> v \<and> v < 3 \<longrightarrow>
        (\<exists>!k. k < 12 \<and> r \<in> set (range_group k filtered)))
   \<and> cut deltaez1_bins (Some 3) = None
   \<and> (DeltaEZ1 r = Some 3 \<longrightarrow>
        r \<notin> set (range_group k filtered) \<and>
        range_count_df (r # filtered) = range_count_df filtered)"
proof -
  have ex1: "\<exists>!k. k < 12 \<and> - 3 + of_nat k / 2 \<le> w \<and> w < - 3 + of_nat (k + 1) / 2"
    if "- 3 \<le> w" "w < 3" for w :: rat
  proof -
    from that have "cut deltaez1_bins (Some w) \<noteq> None"
      by (simp add: cut_deltaez1_None_iff)
    then obtain j where "cut deltaez1_bins (Some w) = Some j" by blast
    then show ?thesis
      unfolding cut_deltaez1_iff [symmetric] by simp
  qed
  have rec: "\<exists>!k. k < 12 \<and> r \<in> set (range_group k filtered)"
    if "r \<in> set filtered" "DeltaEZ1 r = Some v" "- 3 \<le> v" "v < 3"
    using ex1 [OF that(3,4)] that(1,2)
    by (simp add: in_range_group cut_deltaez1_iff)
  have three: "cut deltaez1_bins (Some 3) = None"
    by (simp add: cut_deltaez1_None_iff)
  have drop: "range_count_df (r # filtered) = range_count_df filtered"
    if "DeltaEZ1 r = Some 3"
    using that three by (simp add: range_count_df_def range_group_def)
  show ?thesis
    using length_deltaez1_bins deltaez1_bins_steps length_bin_labels nth_bin_labels [of i]
      cut_deltaez1_iff [of v k] ex1 [of v] rec three drop
    by (simp add: in_range_group)
qed

theorem binning_half_open_witness:
  "bin_labels ! 0 = (- 3, - (5 / 2))
   \<and> (\<exists>!k. k < 12 \<and> - 3 + of_nat k / 2 \<le> (1::rat) \<and> (1::rat) < - 3 + of_nat (k + 1) / 2)
   \<and> (\<exists>!k. k < 12 \<and>
         selected sample_analysis ! 1 \<in> set (range_group k (selected sample_analysis)))
   \<and> selected sample_analysis ! 0 \<notin> set (range_group 11 (selected sample_analysis))"
proof -
  have m: "selected sample_analysis ! 1 \<in> set (selected sample_analysis)"
    by (simp add: sample_analysis_def)
  have d1: "DeltaEZ1 (selected sample_analysis ! 1) = Some 1"
    by (simp add: sample_analysis_def)
  have d3: "DeltaEZ1 (selected sample_analysis ! 0) = Some 3"
    by (simp add: sample_analysis_def)
  from binning_half_open [of 0 1 8 "selected sample_analysis ! 1" "selected sample_analysis"]
  have a: "bin_labels ! 0 = (- 3, - (5 / 2))"
    "\<exists>!k. k < 12 \<and> - 3 + of_nat k / 2 \<le> (1::rat) \<and> (1::rat) < - 3 + of_nat (k + 1) / 2"
    "\<exists>!k. k < 12 \<and>
       selected sample_analysis ! 1 \<in> set (range_group k (selected sample_analysis))"
    using m d1 by simp_all
  from binning_half_open [of 0 1 11 "selected sample_analysis ! 0" "selected sample_analysis"]
  have "selected sample_analysis ! 0 \<notin> set (range_group 11 (selected sample_analysis))"
    using d3 by blast
  with a show ?thesis by blast
qed






subsection \<open>The regression\<close>




end
